theory Spec2Isabelle
  imports Complex_Main "HOL-Library.Sublist"
begin

section \<open>Python strings and lists\<close>

text \<open>
  A Python \<open>str\<close> is modelled as a \<open>string\<close>, one \<open>char\<close> per code point; the model
  covers command lines whose code points lie in the range of \<open>char\<close> (U+0000 to U+00FF).
  Slicing and indexing count code points, as Python does.
\<close>

datatype psutil_error = NoSuchProcess | AccessDenied

datatype py_error = PsutilError psutil_error | IndexError

text \<open>\<open>str.isspace\<close> on one code point below U+0100.\<close>

definition isspace :: "char \<Rightarrow> bool" where
  "isspace c = (c \<in> set [CHR 0x09, CHR 0x0A, CHR 0x0B, CHR 0x0C, CHR 0x0D,
                           CHR 0x1C, CHR 0x1D, CHR 0x1E, CHR 0x1F, CHR 0x20,
                           CHR 0x85, CHR 0xA0])"

text \<open>
  \<open>s.split()\<close> with no separator: runs of whitespace separate the words, and no empty
  word is produced. \<open>cur\<close> is the word being read.
\<close>

fun split_from :: "string \<Rightarrow> string \<Rightarrow> string list" where
  "split_from cur [] = (if cur = [] then [] else [cur])"
| "split_from cur (c # cs) =
     (if isspace c then (if cur = [] then split_from [] cs else cur # split_from [] cs)
      else split_from (cur @ [c]) cs)"

definition py_split :: "string \<Rightarrow> string list" where
  "py_split s = split_from [] s"

text \<open>\<open>s.startswith(p)\<close>.\<close>

fun startswith :: "string \<Rightarrow> string \<Rightarrow> bool" where
  "startswith s [] = True"
| "startswith [] (c # p) = False"
| "startswith (x # s) (c # p) = (x = c \<and> startswith s p)"

text \<open>\<open>sub in s\<close> on strings: \<open>sub\<close> occurs in \<open>s\<close> as a contiguous run.\<close>

fun py_in :: "string \<Rightarrow> string \<Rightarrow> bool" where
  "py_in sub [] = (sub = [])"
| "py_in sub (c # s) = (startswith (c # s) sub \<or> py_in sub s)"

text \<open>\<open>xs[i]\<close> for a literal index \<open>i \<ge> 0\<close>: out of range raises IndexError.\<close>

definition py_index :: "'a list \<Rightarrow> nat \<Rightarrow> py_error + 'a" where
  "py_index xs i = (if i < length xs then Inr (xs ! i) else Inl IndexError)"

text \<open>\<open>s[i:j]\<close> for literal \<open>0 \<le> i \<le> j\<close>: a slice never raises, it is cut at the end.\<close>

definition py_slice :: "nat \<Rightarrow> nat \<Rightarrow> 'a list \<Rightarrow> 'a list" where
  "py_slice i j s = take (j - i) (drop i s)"

text \<open>\<open>any(bs)\<close> on a list of booleans.\<close>

fun py_any :: "bool list \<Rightarrow> bool" where
  "py_any [] = False"
| "py_any (b # bs) = (if b then True else py_any bs)"

text \<open>\<open>sep.join(parts)\<close>.\<close>

fun py_join :: "string \<Rightarrow> string list \<Rightarrow> string" where
  "py_join sep [] = []"
| "py_join sep [p] = p"
| "py_join sep (p # q # ps) = p @ sep @ py_join sep (q # ps)"

section \<open>The data model\<close>

text \<open>
  The dictionary \<open>get_airflow_data\<close> returns has the five identity keys; the named tuple
  \<open>ProcessMetrics\<close> has the same five fields first, then the counters. The float type of
  the CPU counters is a parameter \<open>'f\<close>: the program only copies these values.
\<close>

record airflow_data =
  dag :: string
  operator :: string
  exec_date :: string
  is_local :: bool
  is_raw :: bool

record 'f ProcessMetrics = airflow_data +
  mem_rss :: int
  mem_vms :: int
  mem_shared :: int
  mem_text :: int
  mem_data :: int
  mem_lib :: int
  mem_uss :: int
  mem_pss :: int
  mem_swap :: int
  cpu_percent :: 'f
  cpu_times_user :: 'f
  cpu_times_system :: 'f

subsection \<open>The process-enumeration facility (psutil)\<close>

text \<open>
  What \<open>memory_full_info()\<close> and \<open>cpu_times()\<close> return, with the fields the program reads.
\<close>

record pfullmem =
  rss :: int
  vms :: int
  shared :: int
  text' :: int
  data' :: int
  lib :: int
  uss :: int
  pss :: int
  swap :: int

record 'f pcputimes =
  user :: 'f
  system :: 'f

text \<open>
  A process handle, as one scan sees it: each method is called at most once per scan, and
  either returns or raises a psutil error (\<open>NoSuchProcess\<close> when the process has vanished;
  \<open>AccessDenied\<close> stands for the psutil errors the program's \<open>except\<close> clause does not name).
\<close>

record 'f process =
  cmdline :: "psutil_error + string list"
  memory_full_info :: "psutil_error + pfullmem"
  cpu_times :: "psutil_error + 'f pcputimes"
  proc_cpu_percent :: "psutil_error + 'f"

subsection \<open>The metrics registry (prometheus_client)\<close>

text \<open>
  A value handed to \<open>Gauge.set\<close>: an integer memory counter or a float CPU counter.
\<close>

datatype 'f num = PyInt int | PyFloat 'f

text \<open>
  A labelled gauge: its name, its declared label names, and \<open>_metrics\<close>, the dictionary
  from label combinations to the value set there. A label combination is the mapping
  handed to \<open>labels(**labels)\<close>, kept as the list of its items. The registry's own
  check that the keys of the mapping are the gauge's label names is not modelled: the
  keys are the four base names and the keys of the extra labels on both sides.
\<close>

record 'f Gauge =
  gname :: string
  labelnames :: "string list"
  metrics :: "(string \<times> string) list \<rightharpoonup> 'f num"

text \<open>\<open>g.labels(**labels).set(v)\<close>.\<close>

definition gauge_set :: "(string \<times> string) list \<Rightarrow> 'f num \<Rightarrow> 'f Gauge \<Rightarrow> 'f Gauge" where
  "gauge_set labels v g = g\<lparr>metrics := (metrics g)(labels \<mapsto> v)\<rparr>"

record 'f MetricsContainer =
  prefix' :: "string option"
  global_labels :: "(string \<times> string) list option"
  g_mem_rss :: "'f Gauge"
  g_mem_vms :: "'f Gauge"
  g_mem_shared :: "'f Gauge"
  g_mem_text :: "'f Gauge"
  g_mem_lib :: "'f Gauge"
  g_mem_uss :: "'f Gauge"
  g_mem_swap :: "'f Gauge"
  g_mem_pss :: "'f Gauge"
  g_cpu_percent :: "'f Gauge"
  g_cpu_times_user :: "'f Gauge"
  g_cpu_times_system :: "'f Gauge"

subsection \<open>Dictionaries\<close>

text \<open>
  A Python dictionary with string keys, as the list of its items in insertion order.
  \<open>d[k] = v\<close> replaces the value of a key already there and appends a new key.
\<close>

fun dict_set :: "string \<Rightarrow> 'v \<Rightarrow> (string \<times> 'v) list \<Rightarrow> (string \<times> 'v) list" where
  "dict_set k v [] = [(k, v)]"
| "dict_set k v ((k', v') # d) = (if k = k' then (k, v) # d else (k', v') # dict_set k v d)"

text \<open>\<open>d.update(other)\<close>.\<close>

fun dict_update :: "(string \<times> 'v) list \<Rightarrow> (string \<times> 'v) list \<Rightarrow> (string \<times> 'v) list" where
  "dict_update d [] = d"
| "dict_update d ((k, v) # other) = dict_update (dict_set k v d) other"

text \<open>The truth value of an optional dictionary: \<open>None\<close> and \<open>{}\<close> are false.\<close>

fun truthy :: "'a list option \<Rightarrow> bool" where
  "truthy None = False"
| "truthy (Some xs) = (xs \<noteq> [])"

text \<open>The items and the keys of an optional dictionary that is true.\<close>

fun items :: "'a list option \<Rightarrow> 'a list" where
  "items None = []"
| "items (Some xs) = xs"

definition keys :: "('k \<times> 'v) list option \<Rightarrow> 'k list" where
  "keys d = map fst (items d)"

section \<open>The scanner\<close>

text \<open>
  The loop of \<open>get_airflow_data\<close> over the command-line tokens: the first token that
  contains \<open>airflow run\<close> is split and read by position; no such token, and the function
  falls off its end and returns \<open>None\<close>.
\<close>

fun scan_cmdline :: "string list \<Rightarrow> py_error + airflow_data option" where
  "scan_cmdline [] = Inr None"
| "scan_cmdline (cmd_arg # rest) =
     (if \<not> py_in ''airflow run'' cmd_arg then scan_cmdline rest
      else
        let airflow_args = py_split cmd_arg in
        (case py_index airflow_args 3 of Inl e \<Rightarrow> Inl e | Inr dag' \<Rightarrow>
        (case py_index airflow_args 4 of Inl e \<Rightarrow> Inl e | Inr operator' \<Rightarrow>
        (case py_index airflow_args 5 of Inl e \<Rightarrow> Inl e | Inr arg5 \<Rightarrow>
          Inr (Some \<lparr>dag = dag', operator = operator',
                     exec_date = py_slice 5 25 arg5,
                     is_local = py_any (map (\<lambda>i. i = ''--local'') airflow_args),
                     is_raw = py_any (map (\<lambda>i. i = ''--raw'') airflow_args)\<rparr>)))))"

definition get_airflow_data :: "('f, 'z) process_scheme \<Rightarrow> py_error + airflow_data option" where
  "get_airflow_data process =
     (case cmdline process of
        Inl e \<Rightarrow> Inl (PsutilError e)
      | Inr [] \<Rightarrow> Inr None
      | Inr (arg0 # args) \<Rightarrow>
          if \<not> startswith arg0 ''/usr/bin/python'' then Inr None
          else scan_cmdline (arg0 # args))"

text \<open>
  The \<open>try\<close> block of one iteration of \<open>_get_processes_metrics\<close>: \<open>Inr None\<close> is its
  \<open>continue\<close>, \<open>Inr (Some \<dots>)\<close> reaches the \<open>yield\<close>.
\<close>

definition try_block ::
  "'f process \<Rightarrow> py_error + (airflow_data \<times> pfullmem \<times> 'f pcputimes \<times> 'f) option" where
  "try_block process =
     (case get_airflow_data process of Inl e \<Rightarrow> Inl e | Inr None \<Rightarrow> Inr None
      | Inr (Some airflow_data) \<Rightarrow>
     (case memory_full_info process of Inl e \<Rightarrow> Inl (PsutilError e) | Inr mem \<Rightarrow>
     (case cpu_times process of Inl e \<Rightarrow> Inl (PsutilError e) | Inr cpu_times' \<Rightarrow>
     (case proc_cpu_percent process of Inl e \<Rightarrow> Inl (PsutilError e) | Inr cpu_percent' \<Rightarrow>
        Inr (Some (airflow_data, mem, cpu_times', cpu_percent'))))))"

text \<open>
  One iteration: \<open>except psutil.NoSuchProcess: continue\<close> absorbs that error and no other;
  what passes is made into the record that is yielded.
\<close>

definition scan_process :: "'f process \<Rightarrow> py_error + 'f ProcessMetrics option" where
  "scan_process process =
     (case try_block process of
        Inl (PsutilError NoSuchProcess) \<Rightarrow> Inr None
      | Inl e \<Rightarrow> Inl e
      | Inr None \<Rightarrow> Inr None
      | Inr (Some (airflow_data, mem, cpu_times', cpu_percent')) \<Rightarrow>
          Inr (Some \<lparr>dag = dag airflow_data, operator = operator airflow_data,
                     exec_date = exec_date airflow_data,
                     is_local = is_local airflow_data, is_raw = is_raw airflow_data,
                     mem_rss = rss mem, mem_vms = vms mem, mem_shared = shared mem,
                     mem_text = text' mem, mem_data = data' mem, mem_lib = lib mem,
                     mem_uss = uss mem, mem_pss = pss mem, mem_swap = swap mem,
                     cpu_percent = cpu_percent',
                     cpu_times_user = user cpu_times',
                     cpu_times_system = system cpu_times'\<rparr>))"

text \<open>
  The generator \<open>_get_processes_metrics\<close> over the processes \<open>psutil.process_iter()\<close>
  enumerates: the records it yields, in order, and the exception that ended it, if one
  did. An exception ends the generator: the processes after it are never looked at.
\<close>

fun get_processes_metrics :: "'f process list \<Rightarrow> 'f ProcessMetrics list \<times> py_error option" where
  "get_processes_metrics [] = ([], None)"
| "get_processes_metrics (process # rest) =
     (case scan_process process of
        Inl e \<Rightarrow> ([], Some e)
      | Inr None \<Rightarrow> get_processes_metrics rest
      | Inr (Some m) \<Rightarrow>
          (case get_processes_metrics rest of (ms, e) \<Rightarrow> (m # ms, e)))"

section \<open>The publisher\<close>

definition get_process_name :: "'f ProcessMetrics \<Rightarrow> string" where
  "get_process_name m =
     (let name_parts = (if \<not> py_in (dag m) (operator m)
                        then [dag m @ ''.'' @ operator m] else [operator m]);
          name_parts = name_parts @ [exec_date m];
          name_parts = (if is_local m then name_parts @ [''local''] else name_parts);
          name_parts = (if is_raw m then name_parts @ [''is_raw''] else name_parts)
      in py_join ''_'' name_parts)"

text \<open>
  The local function \<open>gauge\<close> of \<open>__init__\<close>: the prefix is put before the name, and the
  gauge starts with no label-value tuple. The documentation string is left out.
\<close>

definition gauge :: "string option \<Rightarrow> string list \<Rightarrow> string \<Rightarrow> 'f Gauge" where
  "gauge name_prefix labels name =
     \<lparr>gname = (case name_prefix of None \<Rightarrow> name
                | Some p \<Rightarrow> if p \<noteq> [] then p @ ''_'' @ name else name),
      labelnames = labels, metrics = Map.empty\<rparr>"

definition init :: "string option \<Rightarrow> (string \<times> string) list option \<Rightarrow> 'f MetricsContainer" where
  "init name_prefix gl =
     (let labels = [''name'', ''dag'', ''operator'', ''exec_date''];
          labels = (if truthy gl then labels @ keys gl else labels)
      in \<lparr>prefix' = name_prefix, global_labels = gl,
          g_mem_rss = gauge name_prefix labels ''airflow_process_mem_rss'',
          g_mem_vms = gauge name_prefix labels ''airflow_process_mem_vms'',
          g_mem_shared = gauge name_prefix labels ''airflow_process_mem_shared'',
          g_mem_text = gauge name_prefix labels ''airflow_process_mem_text'',
          g_mem_lib = gauge name_prefix labels ''airflow_process_mem_lib'',
          g_mem_uss = gauge name_prefix labels ''airflow_process_mem_uss'',
          g_mem_swap = gauge name_prefix labels ''airflow_process_mem_swap'',
          g_mem_pss = gauge name_prefix labels ''airflow_process_mem_pss'',
          g_cpu_percent = gauge name_prefix labels ''airflow_process_cpu_percent'',
          g_cpu_times_user = gauge name_prefix labels ''airflow_process_cpu_times_user'',
          g_cpu_times_system = gauge name_prefix labels ''airflow_process_cpu_times_system''\<rparr>)"

text \<open>The label mapping \<open>_handle_process_metrics\<close> builds for a record.\<close>

definition labels_of :: "(string \<times> string) list option \<Rightarrow> 'f ProcessMetrics \<Rightarrow> (string \<times> string) list" where
  "labels_of gl m =
     (let name = get_process_name m;
          labels = [(''name'', name), (''dag'', dag m),
                    (''operator'', operator m), (''exec_date'', exec_date m)]
      in if truthy gl then dict_update labels (items gl) else labels)"

definition handle_process_metrics :: "'f ProcessMetrics \<Rightarrow> 'f MetricsContainer \<Rightarrow> 'f MetricsContainer" where
  "handle_process_metrics m self =
     (let labels = labels_of (global_labels self) m in
      self\<lparr>g_mem_rss := gauge_set labels (PyInt (mem_rss m)) (g_mem_rss self),
           g_mem_vms := gauge_set labels (PyInt (mem_vms m)) (g_mem_vms self),
           g_mem_shared := gauge_set labels (PyInt (mem_shared m)) (g_mem_shared self),
           g_mem_text := gauge_set labels (PyInt (mem_text m)) (g_mem_text self),
           g_mem_uss := gauge_set labels (PyInt (mem_uss m)) (g_mem_uss self),
           g_mem_swap := gauge_set labels (PyInt (mem_swap m)) (g_mem_swap self),
           g_mem_pss := gauge_set labels (PyInt (mem_pss m)) (g_mem_pss self),
           g_cpu_percent := gauge_set labels (PyFloat (cpu_percent m)) (g_cpu_percent self),
           g_cpu_times_user :=
             gauge_set labels (PyFloat (cpu_times_user m)) (g_cpu_times_user self),
           g_cpu_times_system :=
             gauge_set labels (PyFloat (cpu_times_system m)) (g_cpu_times_system self)\<rparr>)"

definition clear :: "'f Gauge \<Rightarrow> 'f Gauge" where
  "clear g = g\<lparr>metrics := Map.empty\<rparr>"

definition reset :: "'f MetricsContainer \<Rightarrow> 'f MetricsContainer" where
  "reset self =
     self\<lparr>g_mem_rss := clear (g_mem_rss self),
          g_mem_vms := clear (g_mem_vms self),
          g_mem_shared := clear (g_mem_shared self),
          g_mem_text := clear (g_mem_text self),
          g_mem_uss := clear (g_mem_uss self),
          g_mem_swap := clear (g_mem_swap self),
          g_mem_pss := clear (g_mem_pss self),
          g_cpu_percent := clear (g_cpu_percent self),
          g_cpu_times_user := clear (g_cpu_times_user self),
          g_cpu_times_system := clear (g_cpu_times_system self)\<rparr>"

text \<open>
  The \<open>for\<close> loop of \<open>collect\<close> over the records the generator yields, with the counter
  \<open>handled\<close>.
\<close>

fun collect_loop ::
  "'f ProcessMetrics list \<Rightarrow> 'f MetricsContainer \<times> nat \<Rightarrow> 'f MetricsContainer \<times> nat" where
  "collect_loop [] (self, handled) = (self, handled)"
| "collect_loop (process_metrics # rest) (self, handled) =
     collect_loop rest (handle_process_metrics process_metrics self, handled + 1)"

text \<open>
  \<open>collect\<close> on the processes of one cycle: the container after it, and either the count
  it logs or the exception that left it (the records yielded before the exception are
  already written then). The timing summary around it is not modelled.
\<close>

definition collect ::
  "'f process list \<Rightarrow> 'f MetricsContainer \<Rightarrow> 'f MetricsContainer \<times> (py_error + nat)" where
  "collect processes self =
     (case get_processes_metrics processes of (yielded, raised) \<Rightarrow>
       (case collect_loop yielded (reset self, 0) of (self', handled) \<Rightarrow>
          (self', (case raised of None \<Rightarrow> Inr handled | Some e \<Rightarrow> Inl e))))"

text \<open>The eleven gauges a container owns.\<close>

definition gauges :: "'f MetricsContainer \<Rightarrow> 'f Gauge list" where
  "gauges self =
     [g_mem_rss self, g_mem_vms self, g_mem_shared self, g_mem_text self, g_mem_lib self,
      g_mem_uss self, g_mem_swap self, g_mem_pss self,
      g_cpu_percent self, g_cpu_times_user self, g_cpu_times_system self]"

text \<open>
  The containers the program can hold: a freshly constructed one, and one after any
  number of calls of its methods. A \<open>collect\<close> that an exception left counts: its
  container is the first component of \<open>collect\<close> all the same.
\<close>

inductive reachable :: "'f MetricsContainer \<Rightarrow> bool" where
  reachable_init: "reachable (init name_prefix gl)"
| reachable_collect: "reachable self \<Longrightarrow> reachable (fst (collect processes self))"
| reachable_handle: "reachable self \<Longrightarrow> reachable (handle_process_metrics m self)"
| reachable_reset: "reachable self \<Longrightarrow> reachable (reset self)"

text \<open>The label combinations some gauge of a container exposes.\<close>

definition exposed :: "'f MetricsContainer \<Rightarrow> (string \<times> string) list set" where
  "exposed c = (\<Union>g\<in>set (gauges c). dom (metrics g))"

section \<open>Notions the properties are stated with\<close>

text \<open>
  The matching token of a command line: its first token that contains the marker
  \<open>airflow run\<close>.
\<close>

definition matching_token :: "string list \<Rightarrow> string option" where
  "matching_token cmdline' = find (\<lambda>cmd_arg. sublist ''airflow run'' cmd_arg) cmdline'"

text \<open>
  A command line passes the interpreter-path filter when it is not empty and its first
  token starts with \<open>/usr/bin/python\<close>.
\<close>

definition passes_filter :: "string list \<Rightarrow> bool" where
  "passes_filter cmdline' =
     (case cmdline' of [] \<Rightarrow> False | arg0 # _ \<Rightarrow> prefix ''/usr/bin/python'' arg0)"

text \<open>
  A process is matched when its command line could be fetched, passes the filter and has
  a matching token; a matched process is malformed when its matching token splits into
  fewer than six sub-tokens, so that position 5 is out of range.
\<close>

definition matched :: "'f process \<Rightarrow> bool" where
  "matched process =
     (case cmdline process of Inl _ \<Rightarrow> False
      | Inr c \<Rightarrow> passes_filter c \<and> matching_token c \<noteq> None)"

definition malformed :: "'f process \<Rightarrow> bool" where
  "malformed process =
     (case cmdline process of Inl _ \<Rightarrow> False
      | Inr c \<Rightarrow> passes_filter c \<and>
          (case matching_token c of None \<Rightarrow> False
           | Some tok \<Rightarrow> length (py_split tok) < 6))"

text \<open>
  A process remained present through the fetch when its three attribute fetches
  returned. Every failure of a process is a vanishing when none of its calls raises a
  psutil error other than \<open>NoSuchProcess\<close>.
\<close>

definition remained :: "'f process \<Rightarrow> bool" where
  "remained process =
     (\<not> isl (memory_full_info process) \<and> \<not> isl (cpu_times process)
      \<and> \<not> isl (proc_cpu_percent process))"

definition only_vanishes :: "'f process \<Rightarrow> bool" where
  "only_vanishes process =
     (cmdline process \<noteq> Inl AccessDenied \<and> memory_full_info process \<noteq> Inl AccessDenied
      \<and> cpu_times process \<noteq> Inl AccessDenied \<and> proc_cpu_percent process \<noteq> Inl AccessDenied)"


subsection \<open>Concrete processes\<close>

definition mem0 :: pfullmem where
  "mem0 = \<lparr>rss = 100, vms = 200, shared = 30, text' = 4, data' = 50, lib = 7, uss = 80,
           pss = 90, swap = 0\<rparr>"

text \<open>A live process with the given command line, whose fetches all return.\<close>

definition live :: "string list \<Rightarrow> real process" where
  "live c = \<lparr>cmdline = Inr c, memory_full_info = Inr mem0,
             cpu_times = Inr \<lparr>user = 1.5, system = 0.25\<rparr>, proc_cpu_percent = Inr 12.5\<rparr>"



text \<open>The record the scan yields for a live process with identity \<open>d\<close>.\<close>

definition record0 :: "airflow_data \<Rightarrow> real ProcessMetrics" where
  "record0 d = \<lparr>dag = dag d, operator = operator d, exec_date = exec_date d,
                is_local = is_local d, is_raw = is_raw d,
                mem_rss = 100, mem_vms = 200, mem_shared = 30, mem_text = 4, mem_data = 50,
                mem_lib = 7, mem_uss = 80, mem_pss = 90, mem_swap = 0,
                cpu_percent = 12.5, cpu_times_user = 1.5, cpu_times_system = 0.25\<rparr>"

text \<open>
  A worker's command line as the program expects it, one token that starts with the
  interpreter and the script; a command line whose marker token is too short; and the
  identity the extraction reads from the first.
\<close>

definition worker :: "string list" where
  "worker = [''/usr/bin/python /usr/bin/airflow run my_dag my_task 2023-03-03T00:00:00+00:00 --local'']"


definition worker_data :: airflow_data where
  "worker_data = \<lparr>dag = ''my_dag'', operator = ''my_task'', exec_date = ''03-03T00:00:00+00:00'',
                  is_local = True, is_raw = False\<rparr>"

text \<open>
  A second worker, a configuration of extra labels, and the label combination of the
  first worker under it.
\<close>

definition other_worker :: "string list" where
  "other_worker = [''/usr/bin/python /usr/bin/airflow run reporting send_email 2023-02-02T00:00:00+00:00 --raw'']"

definition other_data :: airflow_data where
  "other_data = \<lparr>dag = ''reporting'', operator = ''send_email'', exec_date = ''02-02T00:00:00+00:00'',
                  is_local = False, is_raw = True\<rparr>"

definition worker_labels :: "(string \<times> string) list" where
  "worker_labels = [(''name'', ''my_dag.my_task_03-03T00:00:00+00:00_local''), (''dag'', ''my_dag''),
                    (''operator'', ''my_task''), (''exec_date'', ''03-03T00:00:00+00:00''),
                    (''host'', ''h1'')]"

definition labels0 :: "(string \<times> string) list option" where
  "labels0 = Some [(''host'', ''h1'')]"

section \<open>Facts about the string operations\<close>

lemma startswith_prefix: "startswith s p \<longleftrightarrow> prefix p s"
  by (induction s p rule: startswith.induct) auto

lemma py_in_sublist: "py_in sub s \<longleftrightarrow> sublist sub s"
  by (induction s) (auto simp: startswith_prefix sublist_Cons_right)

lemma py_any_map: "py_any (map P xs) \<longleftrightarrow> (\<exists>x \<in> set xs. P x)"
  by (induction xs) auto

lemma py_any_eq: "py_any (map (\<lambda>i. i = a) xs) \<longleftrightarrow> a \<in> set xs"
  by (auto simp: py_any_map)

text \<open>
  The split is the one of whitespace-delimited words: its parts are not empty and have no
  whitespace, and words joined by single blanks split into themselves.
\<close>

lemma split_from_word:
  "\<forall>c\<in>set w. \<not> isspace c \<Longrightarrow> split_from cur (w @ rest) = split_from (cur @ w) rest"
  by (induction w arbitrary: cur) simp_all

lemma split_from_parts:
  assumes "\<forall>c\<in>set cur. \<not> isspace c"
  shows "\<forall>w\<in>set (split_from cur s). w \<noteq> [] \<and> (\<forall>c\<in>set w. \<not> isspace c)"
  using assms
proof (induction s arbitrary: cur)
  case Nil
  then show ?case by simp
next
  case (Cons a s)
  show ?case
  proof (cases "isspace a")
    case True
    with Cons.IH [of "[]"] Cons.prems show ?thesis by simp
  next
    case False
    with Cons.IH [of "cur @ [a]"] Cons.prems show ?thesis by simp
  qed
qed

lemma py_split_parts: "w \<in> set (py_split s) \<Longrightarrow> w \<noteq> [] \<and> (\<forall>c\<in>set w. \<not> isspace c)"
  using split_from_parts [of "[]" s] by (simp add: py_split_def)

lemma py_split_join:
  assumes "\<forall>w\<in>set ws. w \<noteq> [] \<and> (\<forall>c\<in>set w. \<not> isspace c)"
  shows "py_split (py_join '' '' ws) = ws"
  using assms
proof (induction "'' ''" ws rule: py_join.induct)
  case 1
  show ?case by (simp add: py_split_def)
next
  case (2 p)
  then show ?case
    using split_from_word [of p "[]" "[]"] by (simp add: py_split_def)
next
  case (3 p q ps)
  then have "py_split (py_join '' '' (q # ps)) = q # ps" by simp
  moreover have "split_from [] (p @ '' '' @ py_join '' '' (q # ps))
       = p # split_from [] (py_join '' '' (q # ps))"
    using 3(2) split_from_word [of p "[]" "'' '' @ py_join '' '' (q # ps)"]
    by (simp add: isspace_def)
  ultimately show ?case by (simp add: py_split_def)
qed

section \<open>Facts about the extraction heuristic\<close>


lemma scan_cmdline_match: "matching_token c = Some tok \<Longrightarrow> scan_cmdline c = scan_cmdline [tok]"
  by (induction c) (auto simp: matching_token_def py_in_sublist split: if_splits)

lemma matching_token_marker: "matching_token c = Some tok \<Longrightarrow> py_in ''airflow run'' tok"
  by (auto simp: matching_token_def py_in_sublist find_Some_iff)

lemma get_airflow_data_filtered:
  "cmdline p = Inr c \<Longrightarrow> \<not> passes_filter c \<Longrightarrow> get_airflow_data p = Inr None"
  by (auto simp: get_airflow_data_def passes_filter_def startswith_prefix split: list.splits)

lemma get_airflow_data_passed:
  "cmdline p = Inr c \<Longrightarrow> passes_filter c \<Longrightarrow> get_airflow_data p = scan_cmdline c"
  by (auto simp: get_airflow_data_def passes_filter_def startswith_prefix split: list.splits)

lemma get_airflow_data_token:
  assumes "cmdline p = Inr c" "passes_filter c" "matching_token c = Some tok"
  shows "get_airflow_data p = scan_cmdline [tok]"
  using assms by (simp add: get_airflow_data_passed scan_cmdline_match)

text \<open>
  What the loop body does on a token that has the marker: fewer than six sub-tokens raise
  IndexError; otherwise the fields are read at positions 3, 4 and 5, counted from 0.
\<close>

lemma scan_token_fields:
  assumes "py_in ''airflow run'' tok"
  shows "scan_cmdline [tok] =
     (if length (py_split tok) < 6 then Inl IndexError
      else Inr (Some \<lparr>dag = py_split tok ! 3, operator = py_split tok ! 4,
                      exec_date = take 20 (drop 5 (py_split tok ! 5)),
                      is_local = (''--local'' \<in> set (py_split tok)),
                      is_raw = (''--raw'' \<in> set (py_split tok))\<rparr>))"
  using assms by (simp add: py_index_def py_slice_def py_any_eq Let_def)

lemma split_example:
  "py_split ''airflow run my_dag my_task 2023-03-03T00:00:00+00:00 --local''
     = [''airflow'', ''run'', ''my_dag'', ''my_task'', ''2023-03-03T00:00:00+00:00'', ''--local'']"
  by (simp add: py_split_def isspace_def)

lemma live_simps:
  "cmdline (live c) = Inr c" "memory_full_info (live c) = Inr mem0"
  "cpu_times (live c) = Inr \<lparr>user = 1.5, system = 0.25\<rparr>" "proc_cpu_percent (live c) = Inr 12.5"
  by (simp_all add: live_def)


lemma split_utc:
  "py_split ''/usr/bin/python /usr/bin/airflow run my_dag my_task 2023-03-03T00:00:00+00:00 --local''
     = [''/usr/bin/python'', ''/usr/bin/airflow'', ''run'', ''my_dag'', ''my_task'', ''2023-03-03T00:00:00+00:00'', ''--local'']"
  by (simp add: py_split_def isspace_def)

lemma split_naive:
  "py_split ''/usr/bin/python /usr/bin/airflow run my_dag my_task 2023-03-03T00:00:00 --local''
     = [''/usr/bin/python'', ''/usr/bin/airflow'', ''run'', ''my_dag'', ''my_task'', ''2023-03-03T00:00:00'', ''--local'']"
  by (simp add: py_split_def isspace_def)

lemma data_utc: "get_airflow_data (live [''/usr/bin/python /usr/bin/airflow run my_dag my_task 2023-03-03T00:00:00+00:00 --local''])
   = Inr (Some \<lparr>dag = ''my_dag'', operator = ''my_task'', exec_date = ''03-03T00:00:00+00:00'', is_local = True, is_raw = False\<rparr>)"
  by (simp add: live_def get_airflow_data_def split_utc py_index_def py_slice_def)

lemma data_naive: "get_airflow_data (live [''/usr/bin/python /usr/bin/airflow run my_dag my_task 2023-03-03T00:00:00 --local''])
   = Inr (Some \<lparr>dag = ''my_dag'', operator = ''my_task'', exec_date = ''03-03T00:00:00'', is_local = True, is_raw = False\<rparr>)"
  by (simp add: live_def get_airflow_data_def split_naive py_index_def py_slice_def)

lemma split_flags:
  "py_split ''/usr/bin/python /usr/bin/airflow run d t 2023-03-03T00:00:00+00:00 --local=true --raw-mode''
     = [''/usr/bin/python'', ''/usr/bin/airflow'', ''run'', ''d'', ''t'', ''2023-03-03T00:00:00+00:00'',
        ''--local=true'', ''--raw-mode'']"
  by (simp add: py_split_def isspace_def)

lemma data_flags:
  "get_airflow_data (live [''/usr/bin/python /usr/bin/airflow run d t 2023-03-03T00:00:00+00:00 --local=true --raw-mode'', ''--local'', ''--raw''])
     = Inr (Some \<lparr>dag = ''d'', operator = ''t'', exec_date = ''03-03T00:00:00+00:00'',
                  is_local = False, is_raw = False\<rparr>)"
  by (simp add: live_def get_airflow_data_def split_flags py_index_def py_slice_def)

lemma gpm_skip:
  "scan_process p = Inr None \<Longrightarrow>
     get_processes_metrics (ps @ p # qs) = get_processes_metrics (ps @ qs)"
  by (induction ps) (auto split: sum.splits option.splits prod.splits)

section \<open>Facts about the scan\<close>







lemma worker_facts:
  "passes_filter worker"
  "matching_token worker = Some ''/usr/bin/python /usr/bin/airflow run my_dag my_task 2023-03-03T00:00:00+00:00 --local''"
  "scan_cmdline worker = Inr (Some worker_data)"
  by (simp_all add: worker_def passes_filter_def matching_token_def py_in_sublist [symmetric]
      split_utc py_index_def py_slice_def worker_data_def)


lemma live_worker:
  "get_airflow_data (live worker) = Inr (Some worker_data)"
  "try_block (live worker) =
     Inr (Some (worker_data, mem0, \<lparr>user = 1.5, system = 0.25\<rparr>, 12.5))"
  "scan_process (live worker) = Inr (Some (record0 worker_data))"
  "matched (live worker)" "remained (live worker)" "only_vanishes (live worker)"
  "\<not> malformed (live worker)"
  by (simp_all add: get_airflow_data_passed [OF _ worker_facts(1)] worker_facts live_simps
      try_block_def scan_process_def record0_def mem0_def matched_def remained_def
      only_vanishes_def malformed_def split_utc)





section \<open>Facts about the publisher\<close>

lemma handle_kept:
  "global_labels (handle_process_metrics m c) = global_labels c"
  "prefix' (handle_process_metrics m c) = prefix' c"
  "g_mem_lib (handle_process_metrics m c) = g_mem_lib c"
  by (simp_all add: handle_process_metrics_def Let_def)

lemma reset_kept:
  "global_labels (reset c) = global_labels c"
  "prefix' (reset c) = prefix' c"
  "g_mem_lib (reset c) = g_mem_lib c"
  by (simp_all add: reset_def)

lemma reset_handle: "reset (handle_process_metrics m c) = reset c"
  by (simp add: reset_def handle_process_metrics_def Let_def clear_def gauge_set_def)

lemma reset_reset: "reset (reset c) = reset c"
  by (simp add: reset_def clear_def)

lemma collect_loop_fold:
  "collect_loop ms (c, n) = (fold handle_process_metrics ms c, n + length ms)"
  by (induction ms arbitrary: c n) simp_all

lemma fold_handle_kept:
  "global_labels (fold handle_process_metrics ms c) = global_labels c"
  "g_mem_lib (fold handle_process_metrics ms c) = g_mem_lib c"
  by (induction ms arbitrary: c) (simp_all add: handle_kept)

lemma reset_fold_handle: "reset (fold handle_process_metrics ms c) = reset c"
  by (induction ms arbitrary: c) (simp_all add: reset_handle)

lemma collect_eq:
  "collect ps c = (fold handle_process_metrics (fst (get_processes_metrics ps)) (reset c),
     (case snd (get_processes_metrics ps) of None \<Rightarrow> Inr (length (fst (get_processes_metrics ps)))
      | Some e \<Rightarrow> Inl e))"
  by (cases "get_processes_metrics ps") (simp add: collect_def collect_loop_fold split: option.splits)

lemma handle_metrics:
  "metrics (g_mem_rss (handle_process_metrics m c)) =
     (metrics (g_mem_rss c))(labels_of (global_labels c) m \<mapsto> PyInt (mem_rss m))"
  "metrics (g_mem_vms (handle_process_metrics m c)) =
     (metrics (g_mem_vms c))(labels_of (global_labels c) m \<mapsto> PyInt (mem_vms m))"
  "metrics (g_mem_shared (handle_process_metrics m c)) =
     (metrics (g_mem_shared c))(labels_of (global_labels c) m \<mapsto> PyInt (mem_shared m))"
  "metrics (g_mem_text (handle_process_metrics m c)) =
     (metrics (g_mem_text c))(labels_of (global_labels c) m \<mapsto> PyInt (mem_text m))"
  "metrics (g_mem_uss (handle_process_metrics m c)) =
     (metrics (g_mem_uss c))(labels_of (global_labels c) m \<mapsto> PyInt (mem_uss m))"
  "metrics (g_mem_swap (handle_process_metrics m c)) =
     (metrics (g_mem_swap c))(labels_of (global_labels c) m \<mapsto> PyInt (mem_swap m))"
  "metrics (g_mem_pss (handle_process_metrics m c)) =
     (metrics (g_mem_pss c))(labels_of (global_labels c) m \<mapsto> PyInt (mem_pss m))"
  "metrics (g_cpu_percent (handle_process_metrics m c)) =
     (metrics (g_cpu_percent c))(labels_of (global_labels c) m \<mapsto> PyFloat (cpu_percent m))"
  "metrics (g_cpu_times_user (handle_process_metrics m c)) =
     (metrics (g_cpu_times_user c))(labels_of (global_labels c) m \<mapsto> PyFloat (cpu_times_user m))"
  "metrics (g_cpu_times_system (handle_process_metrics m c)) =
     (metrics (g_cpu_times_system c))(labels_of (global_labels c) m \<mapsto> PyFloat (cpu_times_system m))"
  by (simp_all add: handle_process_metrics_def Let_def gauge_set_def)

lemma exposed_handle:
  "exposed (handle_process_metrics m c) \<subseteq> insert (labels_of (global_labels c) m) (exposed c)"
  by (auto simp: exposed_def gauges_def handle_metrics handle_kept split: if_splits)

lemma exposed_fold:
  "exposed (fold handle_process_metrics ms c) \<subseteq> labels_of (global_labels c) ` set ms \<union> exposed c"
proof (induction ms arbitrary: c)
  case Nil
  show ?case by simp
next
  case (Cons m ms)
  have "exposed (fold handle_process_metrics ms (handle_process_metrics m c))
      \<subseteq> labels_of (global_labels c) ` set ms \<union> exposed (handle_process_metrics m c)"
    using Cons.IH [of "handle_process_metrics m c"] by (simp add: handle_kept)
  with exposed_handle [of m c] show ?case by auto
qed

lemma mem_lib_init: "metrics (g_mem_lib (init name_prefix gl)) = Map.empty"
  by (simp add: init_def gauge_def Let_def)

lemma reachable_mem_lib: "reachable c \<Longrightarrow> metrics (g_mem_lib c) = Map.empty"
  by (induction rule: reachable.induct)
     (simp_all add: mem_lib_init collect_eq fold_handle_kept reset_kept handle_kept)

lemma exposed_reset: "metrics (g_mem_lib c) = Map.empty \<Longrightarrow> exposed (reset c) = {}"
  by (simp add: exposed_def gauges_def reset_def clear_def)

lemma split_other:
  "py_split ''/usr/bin/python /usr/bin/airflow run reporting send_email 2023-02-02T00:00:00+00:00 --raw''
     = [''/usr/bin/python'', ''/usr/bin/airflow'', ''run'', ''reporting'', ''send_email'',
        ''2023-02-02T00:00:00+00:00'', ''--raw'']"
  by (simp add: py_split_def isspace_def)

lemma live_other_worker:
  "scan_process (live other_worker) = Inr (Some (record0 other_data))"
  by (simp add: other_worker_def other_data_def live_def get_airflow_data_def split_other
      py_index_def py_slice_def try_block_def scan_process_def record0_def mem0_def)

lemma labels_worker: "labels_of labels0 (record0 worker_data) = worker_labels"
  by (simp add: labels_of_def labels0_def record0_def worker_data_def worker_labels_def
      get_process_name_def Let_def)

lemma labels_other: "labels_of labels0 (record0 other_data) \<noteq> worker_labels"
  by (simp add: labels_of_def labels0_def record0_def other_data_def worker_labels_def
      get_process_name_def Let_def)

lemma init_kept: "global_labels (init name_prefix gl) = gl"
  by (simp add: init_def Let_def)

lemma collect_kept: "global_labels (fst (collect ps c)) = global_labels c"
  by (simp add: collect_eq fold_handle_kept reset_kept)

lemma cycle_one:
  "metrics (g_mem_rss (fst (collect [live worker] (init (Some ''prod'') labels0)))) worker_labels
     = Some (PyInt 100)"
  by (simp add: collect_eq live_worker handle_metrics reset_kept init_kept labels_worker)
     (simp add: record0_def)

section \<open>The extraction on the token of the specification's example\<close>

text \<open>
  C2, as the program computes it. For a process whose command line passes the
  interpreter-path filter and whose matching token is
  \<open>airflow run my_dag my_task 2023-03-03T00:00:00+00:00 --local\<close>, the extraction returns
  \<open>dag = my_task\<close>, \<open>operator = 2023-03-03T00:00:00+00:00\<close>, \<open>exec_date = al\<close>,
  \<open>is_local = True\<close> and \<open>is_raw = False\<close>: the positions 3, 4 and 5 are counted from 0, so
  they are the fourth, fifth and sixth sub-token, and the sixth is \<open>--local\<close>, whose
  characters from position 5 on are \<open>al\<close>.
\<close>

theorem extraction_example:
  assumes "cmdline p = Inr c" and "passes_filter c"
    and "matching_token c = Some ''airflow run my_dag my_task 2023-03-03T00:00:00+00:00 --local''"
  shows "get_airflow_data p =
     Inr (Some \<lparr>dag = ''my_task'', operator = ''2023-03-03T00:00:00+00:00'',
                exec_date = ''al'', is_local = True, is_raw = False\<rparr>)"
proof -
  let ?tok = "''airflow run my_dag my_task 2023-03-03T00:00:00+00:00 --local''"
  have "get_airflow_data p = scan_cmdline [?tok]"
    using assms by (rule get_airflow_data_token)
  also have "\<dots> = Inr (Some \<lparr>dag = ''my_task'', operator = ''2023-03-03T00:00:00+00:00'',
                exec_date = ''al'', is_local = True, is_raw = False\<rparr>)"
    by (simp add: split_example py_index_def py_slice_def)
  finally show ?thesis .
qed

theorem extraction_example_witness:
  "get_airflow_data (live [''/usr/bin/python'',
       ''airflow run my_dag my_task 2023-03-03T00:00:00+00:00 --local'']) =
     Inr (Some \<lparr>dag = ''my_task'', operator = ''2023-03-03T00:00:00+00:00'',
                exec_date = ''al'', is_local = True, is_raw = False\<rparr>)"
  by (rule extraction_example [where c = "[''/usr/bin/python'',
       ''airflow run my_dag my_task 2023-03-03T00:00:00+00:00 --local'']"])
     (simp_all add: live_def passes_filter_def matching_token_def py_in_sublist [symmetric])

text \<open>
  C2 as the specification states it fails on that process: the record returned has
  neither \<open>dag = my_dag\<close> nor \<open>operator = my_task\<close>, and its \<open>exec_date\<close> is not the
  slice of the date.
\<close>

theorem extraction_example_counterexample:
  "get_airflow_data (live [''/usr/bin/python'',
       ''airflow run my_dag my_task 2023-03-03T00:00:00+00:00 --local'']) =
     Inr (Some \<lparr>dag = ''my_task'', operator = ''2023-03-03T00:00:00+00:00'',
                exec_date = ''al'', is_local = True, is_raw = False\<rparr>)
   \<and> ''my_task'' \<noteq> ''my_dag''
   \<and> ''2023-03-03T00:00:00+00:00'' \<noteq> ''my_task''
   \<and> ''al'' \<noteq> py_slice 5 25 ''2023-03-03T00:00:00+00:00''"
  by (simp add: live_def get_airflow_data_def split_example py_index_def py_slice_def)

section \<open>The name label\<close>

text \<open>
  C3. The name label of a record is its base, \<open>dag.operator\<close> when the dag is not a
  substring of the operator and the operator alone when it is, then \<open>_exec_date\<close>, then
  \<open>_local\<close> when \<open>is_local\<close>, then \<open>_is_raw\<close> when \<open>is_raw\<close>. The two records of the
  specification get the names it gives, whatever their counters are.
\<close>

theorem name_label_derivation:
  "get_process_name m =
     (if sublist (dag m) (operator m) then operator m else dag m @ ''.'' @ operator m)
     @ ''_'' @ exec_date m
     @ (if is_local m then ''_local'' else [])
     @ (if is_raw m then ''_is_raw'' else [])
   \<and> get_process_name (m\<lparr>dag := ''etl_pipeline'', operator := ''etl_pipeline_extract'',
          exec_date := ''2023-01-01T00:00:00'', is_local := False, is_raw := False\<rparr>)
       = ''etl_pipeline_extract_2023-01-01T00:00:00''
   \<and> get_process_name (m\<lparr>dag := ''reporting'', operator := ''send_email'',
          exec_date := ''2023-02-02T00:00:00'', is_local := True, is_raw := False\<rparr>)
       = ''reporting.send_email_2023-02-02T00:00:00_local''"
proof (intro conjI)
  show "get_process_name m =
     (if sublist (dag m) (operator m) then operator m else dag m @ ''.'' @ operator m)
     @ ''_'' @ exec_date m
     @ (if is_local m then ''_local'' else [])
     @ (if is_raw m then ''_is_raw'' else [])"
    by (simp add: get_process_name_def py_in_sublist Let_def)
next
  show "get_process_name (m\<lparr>dag := ''etl_pipeline'', operator := ''etl_pipeline_extract'',
          exec_date := ''2023-01-01T00:00:00'', is_local := False, is_raw := False\<rparr>)
       = ''etl_pipeline_extract_2023-01-01T00:00:00''"
    by (simp add: get_process_name_def Let_def)
next
  show "get_process_name (m\<lparr>dag := ''reporting'', operator := ''send_email'',
          exec_date := ''2023-02-02T00:00:00'', is_local := True, is_raw := False\<rparr>)
       = ''reporting.send_email_2023-02-02T00:00:00_local''"
    by (simp add: get_process_name_def Let_def)
qed

section \<open>The execution date\<close>

text \<open>
  C8, as the program computes it. For every process for which the extraction returns a
  record, the matching token has a sub-token at position 5 (counted from 0), and
  \<open>exec_date\<close> is its slice \<open>[5:25]\<close>: the characters at positions 5 to 24, position 25
  excluded. The slice has at most 20 characters; it has 20 exactly when the sub-token has
  at least 25 characters, and otherwise all the characters from position 5 on.
\<close>

theorem exec_date_slice:
  assumes "cmdline p = Inr c" and "matching_token c = Some tok"
    and "get_airflow_data p = Inr (Some d)"
  shows "5 < length (py_split tok)
       \<and> exec_date d = py_slice 5 25 (py_split tok ! 5)
       \<and> exec_date d = take 20 (drop 5 (py_split tok ! 5))
       \<and> length (exec_date d) = min 20 (length (py_split tok ! 5) - 5)
       \<and> (length (exec_date d) = 20 \<longleftrightarrow> 25 \<le> length (py_split tok ! 5))"
proof -
  have pf: "passes_filter c"
    using assms(1,3) get_airflow_data_filtered [of p c] by auto
  have "py_in ''airflow run'' tok"
    using assms(2) by (rule matching_token_marker)
  then have "get_airflow_data p =
     (if length (py_split tok) < 6 then Inl IndexError
      else Inr (Some \<lparr>dag = py_split tok ! 3, operator = py_split tok ! 4,
                      exec_date = take 20 (drop 5 (py_split tok ! 5)),
                      is_local = (''--local'' \<in> set (py_split tok)),
                      is_raw = (''--raw'' \<in> set (py_split tok))\<rparr>))"
    using get_airflow_data_token [OF assms(1) pf assms(2)] scan_token_fields [of tok] by simp
  with assms(3) have len: "\<not> length (py_split tok) < 6"
    and d: "exec_date d = take 20 (drop 5 (py_split tok ! 5))"
    by (auto split: if_splits)
  from len have "5 < length (py_split tok)" by simp
  moreover have "exec_date d = py_slice 5 25 (py_split tok ! 5)"
    using d by (simp add: py_slice_def)
  moreover have "length (exec_date d) = min 20 (length (py_split tok ! 5) - 5)"
    using d by simp
  moreover have "length (exec_date d) = 20 \<longleftrightarrow> 25 \<le> length (py_split tok ! 5)"
    using d by auto
  ultimately show ?thesis using d by blast
qed

theorem exec_date_slice_witness:
  "cmdline (live [''/usr/bin/python /usr/bin/airflow run my_dag my_task 2023-03-03T00:00:00+00:00 --local''])
     = Inr [''/usr/bin/python /usr/bin/airflow run my_dag my_task 2023-03-03T00:00:00+00:00 --local'']
   \<and> matching_token [''/usr/bin/python /usr/bin/airflow run my_dag my_task 2023-03-03T00:00:00+00:00 --local'']
     = Some ''/usr/bin/python /usr/bin/airflow run my_dag my_task 2023-03-03T00:00:00+00:00 --local''
   \<and> get_airflow_data (live [''/usr/bin/python /usr/bin/airflow run my_dag my_task 2023-03-03T00:00:00+00:00 --local''])
     = Inr (Some \<lparr>dag = ''my_dag'', operator = ''my_task'', exec_date = ''03-03T00:00:00+00:00'',
                  is_local = True, is_raw = False\<rparr>)
   \<and> ''03-03T00:00:00+00:00'' = py_slice 5 25 ''2023-03-03T00:00:00+00:00''
   \<and> length ''03-03T00:00:00+00:00'' = (20::nat)"
  using exec_date_slice [of "live [''/usr/bin/python /usr/bin/airflow run my_dag my_task 2023-03-03T00:00:00+00:00 --local'']"
     "[''/usr/bin/python /usr/bin/airflow run my_dag my_task 2023-03-03T00:00:00+00:00 --local'']"
     "''/usr/bin/python /usr/bin/airflow run my_dag my_task 2023-03-03T00:00:00+00:00 --local''"
     "\<lparr>dag = ''my_dag'', operator = ''my_task'', exec_date = ''03-03T00:00:00+00:00'', is_local = True, is_raw = False\<rparr>"]
  by (simp add: data_utc split_utc matching_token_def py_in_sublist [symmetric] live_simps py_slice_def)

text \<open>
  C8 as the specification states it fails: a date without a UTC offset,
  \<open>2023-03-03T00:00:00\<close>, has 19 characters, and the record's \<open>exec_date\<close> has 14
  characters, not 20.
\<close>

theorem exec_date_slice_counterexample:
  "get_airflow_data (live [''/usr/bin/python /usr/bin/airflow run my_dag my_task 2023-03-03T00:00:00 --local''])
     = Inr (Some \<lparr>dag = ''my_dag'', operator = ''my_task'', exec_date = ''03-03T00:00:00'',
                  is_local = True, is_raw = False\<rparr>)
   \<and> length ''03-03T00:00:00'' \<noteq> (20::nat)"
  by (simp add: data_naive)

section \<open>The flags\<close>

text \<open>
  C10. For every process for which the extraction returns a record, \<open>is_local\<close> holds
  exactly when some whitespace-delimited sub-token of the matching token is \<open>--local\<close>,
  and \<open>is_raw\<close> exactly when some sub-token is \<open>--raw\<close>. Only the sub-tokens of the
  matching token count, and only equality with the whole sub-token.
\<close>

theorem flags_exact:
  assumes "cmdline p = Inr c" and "matching_token c = Some tok"
    and "get_airflow_data p = Inr (Some d)"
  shows "(is_local d \<longleftrightarrow> ''--local'' \<in> set (py_split tok))
       \<and> (is_raw d \<longleftrightarrow> ''--raw'' \<in> set (py_split tok))"
proof -
  have pf: "passes_filter c"
    using assms(1,3) get_airflow_data_filtered [of p c] by auto
  have "py_in ''airflow run'' tok"
    using assms(2) by (rule matching_token_marker)
  then have "get_airflow_data p =
     (if length (py_split tok) < 6 then Inl IndexError
      else Inr (Some \<lparr>dag = py_split tok ! 3, operator = py_split tok ! 4,
                      exec_date = take 20 (drop 5 (py_split tok ! 5)),
                      is_local = (''--local'' \<in> set (py_split tok)),
                      is_raw = (''--raw'' \<in> set (py_split tok))\<rparr>))"
    using get_airflow_data_token [OF assms(1) pf assms(2)] scan_token_fields [of tok] by simp
  with assms(3) show ?thesis
    by (auto split: if_splits)
qed

text \<open>
  On a command line whose matching token has the sub-tokens \<open>--local=true\<close> and
  \<open>--raw-mode\<close>, and which has \<open>--local\<close> and \<open>--raw\<close> as later tokens of their own,
  neither flag is set.
\<close>

theorem flags_exact_witness:
  "cmdline (live [''/usr/bin/python /usr/bin/airflow run d t 2023-03-03T00:00:00+00:00 --local=true --raw-mode'', ''--local'', ''--raw''])
     = Inr [''/usr/bin/python /usr/bin/airflow run d t 2023-03-03T00:00:00+00:00 --local=true --raw-mode'', ''--local'', ''--raw'']
   \<and> matching_token [''/usr/bin/python /usr/bin/airflow run d t 2023-03-03T00:00:00+00:00 --local=true --raw-mode'', ''--local'', ''--raw'']
     = Some ''/usr/bin/python /usr/bin/airflow run d t 2023-03-03T00:00:00+00:00 --local=true --raw-mode''
   \<and> get_airflow_data (live [''/usr/bin/python /usr/bin/airflow run d t 2023-03-03T00:00:00+00:00 --local=true --raw-mode'', ''--local'', ''--raw''])
     = Inr (Some \<lparr>dag = ''d'', operator = ''t'', exec_date = ''03-03T00:00:00+00:00'',
                  is_local = False, is_raw = False\<rparr>)
   \<and> ''--local'' \<notin> set (py_split ''/usr/bin/python /usr/bin/airflow run d t 2023-03-03T00:00:00+00:00 --local=true --raw-mode'')
   \<and> ''--raw'' \<notin> set (py_split ''/usr/bin/python /usr/bin/airflow run d t 2023-03-03T00:00:00+00:00 --local=true --raw-mode'')"
  using flags_exact [of "live [''/usr/bin/python /usr/bin/airflow run d t 2023-03-03T00:00:00+00:00 --local=true --raw-mode'', ''--local'', ''--raw'']"
     "[''/usr/bin/python /usr/bin/airflow run d t 2023-03-03T00:00:00+00:00 --local=true --raw-mode'', ''--local'', ''--raw'']"
     "''/usr/bin/python /usr/bin/airflow run d t 2023-03-03T00:00:00+00:00 --local=true --raw-mode''"
     "\<lparr>dag = ''d'', operator = ''t'', exec_date = ''03-03T00:00:00+00:00'', is_local = False, is_raw = False\<rparr>"]
  by (simp add: data_flags matching_token_def py_in_sublist [symmetric] live_simps)

section \<open>The interpreter-path filter\<close>

text \<open>
  C9. A process whose command line is empty, or whose first token does not start with
  \<open>/usr/bin/python\<close>, gets no record, whatever its later tokens are: the extraction
  returns \<open>None\<close>, the iteration continues, and the scan of a process table is the scan of
  the table without that process.
\<close>

theorem filtered_process_no_record:
  assumes "cmdline p = Inr c" and "c = [] \<or> \<not> prefix ''/usr/bin/python'' (hd c)"
  shows "get_airflow_data p = Inr None \<and> scan_process p = Inr None
       \<and> get_processes_metrics (ps @ p # qs) = get_processes_metrics (ps @ qs)"
proof -
  have "\<not> passes_filter c"
    using assms(2) by (cases c) (auto simp: passes_filter_def)
  with assms(1) have g: "get_airflow_data p = Inr None"
    by (rule get_airflow_data_filtered)
  then have s: "scan_process p = Inr None"
    by (simp add: scan_process_def try_block_def)
  from g s gpm_skip [OF s] show ?thesis by simp
qed

text \<open>
  A shell whose second token is a whole worker invocation, listed before a live worker:
  the shell gets no record, the worker gets its own.
\<close>

theorem filtered_process_no_record_witness:
  "cmdline (live (''/bin/bash'' # worker)) = Inr (''/bin/bash'' # worker)
   \<and> \<not> prefix ''/usr/bin/python'' (hd (''/bin/bash'' # worker))
   \<and> matching_token (''/bin/bash'' # worker) = matching_token worker
   \<and> get_airflow_data (live (''/bin/bash'' # worker)) = Inr None
   \<and> scan_process (live (''/bin/bash'' # worker)) = Inr None
   \<and> get_processes_metrics ([] @ live (''/bin/bash'' # worker) # [live worker])
       = ([record0 worker_data], None)"
  using filtered_process_no_record
    [of "live (''/bin/bash'' # worker)" "''/bin/bash'' # worker" "[]" "[live worker]"]
  by (simp add: live_simps live_worker matching_token_def py_in_sublist [symmetric])

section \<open>Processes that vanish during the scan\<close>



section \<open>Errors during the scan\<close>




section \<open>Stale series\<close>

text \<open>
  C1. In every container the program can hold, \<open>_reset\<close> leaves each of the eleven gauges
  without any label combination, and \<open>collect\<close> writes only after it. So after the
  \<open>collect\<close> of a cycle no gauge exposes a label combination that no record of this
  cycle has: the series of a process that was matched in the cycle before and is no
  longer among the live processes are gone. (\<open>_reset\<close> has no line for the \<open>mem_lib\<close>
  gauge; that gauge is never written, so it is empty in every such container.)
\<close>

theorem stale_series_eliminated:
  assumes "reachable self"
  shows "(\<forall>g\<in>set (gauges (reset self)). metrics g = Map.empty)
       \<and> (\<forall>l. l \<notin> labels_of (global_labels self) ` set (fst (get_processes_metrics ps)) \<longrightarrow>
            (\<forall>g\<in>set (gauges (fst (collect ps self))). metrics g l = None))"
proof -
  have lib: "metrics (g_mem_lib self) = Map.empty"
    using assms by (rule reachable_mem_lib)
  then have r: "exposed (reset self) = {}" by (rule exposed_reset)
  have "exposed (fst (collect ps self))
      \<subseteq> labels_of (global_labels self) ` set (fst (get_processes_metrics ps))"
    using exposed_fold [of "fst (get_processes_metrics ps)" "reset self"] r
    by (simp add: collect_eq reset_kept)
  moreover have "\<forall>g\<in>set (gauges (reset self)). metrics g = Map.empty"
    using r by (auto simp: exposed_def)
  ultimately show ?thesis
    by (auto simp: exposed_def)
qed

text \<open>
  Cycle N has the first worker, cycle N+1 only the second: after cycle N the \<open>mem_rss\<close>
  gauge has the first worker's label combination, after cycle N+1 no gauge has it.
\<close>

theorem stale_series_eliminated_witness:
  "reachable (fst (collect [live worker] (init (Some ''prod'') labels0)))
   \<and> metrics (g_mem_rss (fst (collect [live worker] (init (Some ''prod'') labels0)))) worker_labels
       = Some (PyInt 100)
   \<and> worker_labels \<notin> labels_of labels0 ` set (fst (get_processes_metrics [live other_worker]))
   \<and> map (\<lambda>g. metrics g worker_labels)
        (gauges (fst (collect [live other_worker]
                   (fst (collect [live worker] (init (Some ''prod'') labels0))))))
       = replicate 11 None
   \<and> map metrics (gauges (reset (fst (collect [live worker] (init (Some ''prod'') labels0)))))
       = replicate 11 Map.empty"
proof -
  let ?c1 = "fst (collect [live worker] (init (Some ''prod'') labels0)) :: real MetricsContainer"
  have r: "reachable ?c1"
    by (intro reachable_collect reachable_init)
  have n: "worker_labels \<notin> labels_of labels0 ` set (fst (get_processes_metrics [live other_worker]))"
    using labels_other by (simp add: live_other_worker)
  have g: "global_labels ?c1 = labels0"
    by (simp add: collect_kept init_kept)
  from stale_series_eliminated [OF r, of "[live other_worker]"] n g
  have "\<forall>g\<in>set (gauges (reset ?c1)). metrics g = Map.empty"
    and "\<forall>g\<in>set (gauges (fst (collect [live other_worker] ?c1))). metrics g worker_labels = None"
    by simp_all
  then have "map (\<lambda>g. metrics g worker_labels) (gauges (fst (collect [live other_worker] ?c1)))
       = replicate 11 None"
    and "map metrics (gauges (reset ?c1)) = replicate 11 Map.empty"
    by (simp_all add: gauges_def numeral_eq_Suc)
  with r n cycle_one show ?thesis by simp
qed

section \<open>Two collections in a row\<close>

text \<open>
  C7. Running \<open>collect\<close> twice in a row on the same process table gives the same
  container both times, with the same label combinations and the same values in every
  gauge, and the same outcome (the count that is logged, or the exception). The process
  table holds what the calls on each process return, so an unchanged table has
  unchanged counters.
\<close>

theorem collect_idempotent:
  "collect ps (fst (collect ps self)) = collect ps self"
  by (simp add: collect_eq reset_fold_handle reset_reset)

section \<open>The gauges that are written\<close>

text \<open>
  C5, on one worker. After a \<open>collect\<close> that yields the worker's record, ten gauges hold
  the record's fields under its label combination; the \<open>mem_lib\<close> gauge, the fifth of the
  eleven, holds nothing there, although the record has \<open>mem_lib = 7\<close>.
\<close>

theorem mem_lib_gauge_never_set:
  "mem_lib (record0 worker_data) = 7
   \<and> labels_of labels0 (record0 worker_data) = worker_labels
   \<and> get_processes_metrics [live worker] = ([record0 worker_data], None)
   \<and> map (\<lambda>g. metrics g worker_labels)
        (gauges (fst (collect [live worker] (init (Some ''prod'') labels0))))
      = [Some (PyInt 100), Some (PyInt 200), Some (PyInt 30), Some (PyInt 4), None,
         Some (PyInt 80), Some (PyInt 0), Some (PyInt 90),
         Some (PyFloat 12.5), Some (PyFloat 1.5), Some (PyFloat 0.25)]"
  by (simp add: collect_eq live_worker handle_metrics handle_kept reset_kept init_kept
      labels_worker gauges_def mem_lib_init) (simp add: record0_def)

end
